theory Spec2Isabelle
  imports Complex_Main "HOL-Library.AList" "HOL-Library.Char_ord" "HOL-Library.List_Lexorder"
    "HOL-Library.Product_Lexorder"
begin

section \<open>Data model\<close>

text \<open>
  The Firestore documents of the reservation engine
  (\<^verbatim>\<open>functions/src/services/availability.service.ts\<close> and
  \<^verbatim>\<open>functions/src/services/reservation.service.ts\<close>).
  A JavaScript \<^verbatim>\<open>Date\<close> or Firestore \<^verbatim>\<open>Timestamp\<close> is its number of
  milliseconds since the epoch, an \<open>int\<close>. A collection is an association list from
  document id to document.
\<close>

datatype SeatingType = indoor | balcony

datatype ReservationStatus = pending | confirmed | seated | completed | cancelled | no_show

text \<open>
  A numeric field of a stored document as JavaScript reads it: the field can be absent
  (\<^verbatim>\<open>undefined\<close>), \<^verbatim>\<open>null\<close>, or a number.
\<close>

datatype jsfield = JsMissing | JsNull | JsNum int

record reservation =
  guestName :: string
  email :: string
  phone :: string
  partySize :: jsfield
  date :: int
  time :: string
  seatingType :: SeatingType
  status :: ReservationStatus
  specialRequests :: "string option"
  createdAt :: int
  updatedAt :: int
  cancelledAt :: "int option"
  cancellationReason :: "string option"

record slotLock =
  lastReservationId :: string
  lastReservationAt :: int

record blockedDate =
  reason :: "string option"

text \<open>
  The id of a slot-lock document is the string
  \<^verbatim>\<open>`${formatDateKey(date)}_${time}_${seatingType}`\<close>; it is kept as the triple of its
  three components.
\<close>

type_synonym slotKey = "int \<times> string \<times> SeatingType"

record database =
  reservations :: "(string \<times> reservation) list"
  slotLocks :: "(slotKey \<times> slotLock) list"
  blockedDates :: "(int \<times> blockedDate) list"

text \<open>
  The settings document, with the fields the admin settings page edits
  (\<^verbatim>\<open>capacities.indoor\<close>, \<^verbatim>\<open>capacities.balcony\<close>, \<^verbatim>\<open>maxAdvanceBookingDays\<close>,
  \<^verbatim>\<open>cancellationWindowHours\<close>) and the \<^verbatim>\<open>timeSlots\<close> list that
  \<^verbatim>\<open>getDailyAvailability\<close> reads.
\<close>

record settings =
  capacities_indoor :: int
  capacities_balcony :: int
  timeSlots :: "string list"
  maxAdvanceBookingDays :: int
  cancellationWindowHours :: int

record AvailabilityResult =
  available :: bool
  remainingCapacity :: int
  totalCapacity :: int
  bookedCount :: int

record TimeSlot =
  slotTime :: string
  availableIndoor :: int
  availableBalcony :: int
  isAvailable :: bool

record DailyAvailability =
  dailyDate :: int
  dailyTimeSlots :: "TimeSlot list"
  isBlocked :: bool
  dailyNotes :: "string option"

record CreateReservationInput =
  input_guestName :: string
  input_email :: string
  input_phone :: string
  input_partySize :: int
  input_date :: int
  input_time :: string
  input_seatingType :: SeatingType
  input_specialRequests :: "string option"

text \<open>
  The errors of \<^verbatim>\<open>utils/errors\<close>, each with the values its message interpolates
  instead of the message text: the two states of a refused transition, the status that
  cannot be cancelled, the window and the floored hours of a late cancellation, the
  seats that remain. \<open>TypeError\<close> is JavaScript's own, raised by reading a field of
  \<^verbatim>\<open>undefined\<close>; \<open>Aborted\<close> is the store's, raised by a transaction that gives up
  its retries.
\<close>

datatype validationReason =
    OutsideBookingWindow
  | AlreadyCancelled
  | CannotCancel ReservationStatus
  | CannotTransition ReservationStatus ReservationStatus

datatype error =
    ValidationError validationReason
  | NotFoundError
  | PreconditionFailedError int int
  | ResourceExhaustedError int
  | TypeError
  | Aborted

section \<open>Settings provider and date utilities\<close>

text \<open>
  Modelled from the spec: \<^verbatim>\<open>getCapacity\<close> of \<^verbatim>\<open>settings.service\<close> is not among
  the sources. The spec gives \<^verbatim>\<open>getCapacity(seatingType) \<rightarrow> integer\<close>, the
  per-category total capacity of one slot.
\<close>

definition getCapacity :: "settings \<Rightarrow> SeatingType \<Rightarrow> int" where
  "getCapacity cfg stype =
     (case stype of indoor \<Rightarrow> capacities_indoor cfg | balcony \<Rightarrow> capacities_balcony cfg)"

text \<open>
  Modelled from the spec: \<^verbatim>\<open>utils/dates\<close> is not among the sources. The spec takes
  a calendar date with the time of day stripped and a canonical date key without
  timezone drift, so a day is a UTC day, of 86400000 milliseconds.
\<close>

definition msPerDay :: int where
  "msPerDay = 86400000"

text \<open>
  Modelled from the spec: \<^verbatim>\<open>getStartOfDay\<close> of \<^verbatim>\<open>utils/dates\<close>, the time
  00:00:00.000 of the day of its argument.
\<close>

definition getStartOfDay :: "int \<Rightarrow> int" where
  "getStartOfDay d = d - d mod msPerDay"

text \<open>
  Modelled from the spec: \<^verbatim>\<open>getEndOfDay\<close> of \<^verbatim>\<open>utils/dates\<close>, the time
  23:59:59.999 of the day of its argument.
\<close>

definition getEndOfDay :: "int \<Rightarrow> int" where
  "getEndOfDay d = getStartOfDay d + (msPerDay - 1)"

text \<open>
  Modelled from the spec: \<^verbatim>\<open>formatDateKey\<close> of \<^verbatim>\<open>utils/dates\<close>, the canonical
  form of the calendar date: the number of the day, where the source has a string.
\<close>

definition formatDateKey :: "int \<Rightarrow> int" where
  "formatDateKey d = d div msPerDay"

section \<open>Availability calculator\<close>

text \<open>The JavaScript expression \<^verbatim>\<open>doc.data().partySize || 0\<close>.\<close>

definition orZero :: "jsfield \<Rightarrow> int" where
  "orZero v = (case v of JsNum n \<Rightarrow> (if n = 0 then 0 else n) | JsNull \<Rightarrow> 0 | JsMissing \<Rightarrow> 0)"

text \<open>
  The query both \<^verbatim>\<open>calculateSlotAvailability\<close> and \<^verbatim>\<open>checkAndReserveSlot\<close> build:
  the reservations of the day of \<open>d\<close>, at time \<open>tm\<close>, in category \<open>stype\<close>, whose
  status is one of confirmed, pending, seated.
\<close>

definition slotQuery :: "database \<Rightarrow> int \<Rightarrow> string \<Rightarrow> SeatingType \<Rightarrow> (string \<times> reservation) list" where
  "slotQuery db d tm stype =
     filter (\<lambda>(i, r). getStartOfDay d \<le> date r \<and> date r \<le> getEndOfDay d
                      \<and> time r = tm \<and> seatingType r = stype
                      \<and> status r \<in> set [confirmed, pending, seated])
            (reservations db)"

text \<open>The \<^verbatim>\<open>reduce\<close> over the snapshot's documents.\<close>

definition sumPartySize :: "(string \<times> reservation) list \<Rightarrow> int" where
  "sumPartySize docs = foldl (\<lambda>sum (i, r). sum + orZero (partySize r)) 0 docs"

definition calculateSlotAvailability ::
    "settings \<Rightarrow> database \<Rightarrow> int \<Rightarrow> string \<Rightarrow> SeatingType \<Rightarrow> AvailabilityResult" where
  "calculateSlotAvailability cfg db d tm stype =
     (let total = getCapacity cfg stype;
          booked = sumPartySize (slotQuery db d tm stype);
          remaining = max 0 (total - booked)
      in \<lparr> available = (remaining > 0), remainingCapacity = remaining,
           totalCapacity = total, bookedCount = booked \<rparr>)"

section \<open>Daily availability aggregator\<close>

text \<open>
  The \<^verbatim>\<open>date\<close> of the result is the ISO string of the date in the source and the
  date itself here; \<^verbatim>\<open>notes\<close> is absent when the date is not blocked, and when the
  blocked-date document has no reason.
\<close>

definition getDailyAvailability :: "settings \<Rightarrow> database \<Rightarrow> int \<Rightarrow> DailyAvailability" where
  "getDailyAvailability cfg db d =
     (let dateKey = formatDateKey d
      in case map_of (blockedDates db) dateKey of
           Some blockedData \<Rightarrow>
             \<lparr> dailyDate = d, dailyTimeSlots = [], isBlocked = True,
               dailyNotes = reason blockedData \<rparr>
         | None \<Rightarrow>
             \<lparr> dailyDate = d,
               dailyTimeSlots =
                 map (\<lambda>tm.
                        let indoorAvailability = calculateSlotAvailability cfg db d tm indoor;
                            balconyAvailability = calculateSlotAvailability cfg db d tm balcony
                        in \<lparr> slotTime = tm,
                             availableIndoor = remainingCapacity indoorAvailability,
                             availableBalcony = remainingCapacity balconyAvailability,
                             isAvailable = (remainingCapacity indoorAvailability > 0
                                            \<or> remainingCapacity balconyAvailability > 0) \<rparr>)
                     (timeSlots cfg),
               isBlocked = False, dailyNotes = None \<rparr>)"

section \<open>Transactional slot reservation\<close>

text \<open>
  The two \<^verbatim>\<open>transaction.set\<close> calls that a successful run of the transaction's
  update function stages: the new reservation document and the slot-lock document.
\<close>

record transactionWrites =
  reservationRef :: string
  reservationDoc :: reservation
  slotLockRef :: slotKey
  slotLockDoc :: slotLock

text \<open>
  The update function passed to \<^verbatim>\<open>db.runTransaction\<close>, run on the database state
  \<open>db\<close> that its reads see. \<open>newId\<close> is the id that
  \<^verbatim>\<open>db.collection('reservations').doc()\<close> generated before the transaction, \<open>now\<close>
  the server timestamp. The function first reads the slot-lock document and drops what
  it read: the read serves the store's detection of conflicts, which the section on
  concurrent calls models.
\<close>

definition reserveTransaction ::
    "settings \<Rightarrow> int \<Rightarrow> string \<Rightarrow> int \<Rightarrow> string \<Rightarrow> SeatingType \<Rightarrow> int \<Rightarrow> reservation
       \<Rightarrow> database \<Rightarrow> error + transactionWrites" where
  "reserveTransaction cfg now newId d tm stype psize reservationData db =
     (let total = getCapacity cfg stype;
          booked = sumPartySize (slotQuery db d tm stype);
          remaining = total - booked
      in if remaining < psize then Inl (ResourceExhaustedError (max 0 remaining))
         else Inr \<lparr> reservationRef = newId, reservationDoc = reservationData,
                    slotLockRef = (formatDateKey d, tm, stype),
                    slotLockDoc = \<lparr> lastReservationId = newId, lastReservationAt = now \<rparr> \<rparr>)"

text \<open>
  The commit of the staged writes. The merge of the slot-lock document sets both of its
  fields.
\<close>

definition commitWrites :: "transactionWrites \<Rightarrow> database \<Rightarrow> database" where
  "commitWrites w db =
     db \<lparr> reservations := AList.update (reservationRef w) (reservationDoc w) (reservations db),
          slotLocks := AList.update (slotLockRef w) (slotLockDoc w) (slotLocks db) \<rparr>"

text \<open>
  \<^verbatim>\<open>checkAndReserveSlot\<close> as one atomic unit: the update function reads the state it
  commits to. The result is the outcome and the database after the call.
\<close>

definition checkAndReserveSlot ::
    "settings \<Rightarrow> int \<Rightarrow> string \<Rightarrow> int \<Rightarrow> string \<Rightarrow> SeatingType \<Rightarrow> int \<Rightarrow> reservation
       \<Rightarrow> database \<Rightarrow> (error + string) \<times> database" where
  "checkAndReserveSlot cfg now newId d tm stype psize reservationData db =
     (case reserveTransaction cfg now newId d tm stype psize reservationData db of
        Inl e \<Rightarrow> (Inl e, db)
      | Inr w \<Rightarrow> (Inr newId, commitWrites w db))"

section \<open>Reservation lifecycle manager\<close>

text \<open>
  Modelled from the spec: \<^verbatim>\<open>getCancellationWindow\<close> of \<^verbatim>\<open>settings.service\<close> is
  not among the sources. The spec gives \<^verbatim>\<open>getCancellationWindowHours() \<rightarrow> integer\<close>,
  the configured cancellation window.
\<close>

definition getCancellationWindow :: "settings \<Rightarrow> int" where
  "getCancellationWindow cfg = cancellationWindowHours cfg"

text \<open>
  Modelled from the spec: \<^verbatim>\<open>isDateWithinBookingWindow\<close> of \<^verbatim>\<open>settings.service\<close>
  is not among the sources. The spec gives \<^verbatim>\<open>isDateWithinBookingWindow(date) \<rightarrow> bool\<close>,
  whether the date falls within the configured advance-booking window, the allowed
  range of future dates, of \<^verbatim>\<open>getMaxAdvanceBookingDays()\<close> days: from the start of
  today to that many days later. Whether the function of the repository refuses
  further dates, such as the blocked ones, the sources do not show, and nothing is
  concluded here about creation on a blocked date.
\<close>

definition isDateWithinBookingWindow :: "settings \<Rightarrow> int \<Rightarrow> int \<Rightarrow> bool" where
  "isDateWithinBookingWindow cfg now d =
     (getStartOfDay now \<le> d
      \<and> d \<le> getStartOfDay now + maxAdvanceBookingDays cfg * msPerDay)"

text \<open>
  Modelled from the spec: \<^verbatim>\<open>getHoursBetween\<close> of \<^verbatim>\<open>utils/dates\<close> is not among
  the sources. The spec has the hours between now and the reservation's date, a number
  that the error message floors to whole hours.
\<close>

definition getHoursBetween :: "int \<Rightarrow> int \<Rightarrow> rat" where
  "getHoursBetween a b = of_int (b - a) / 3600000"

text \<open>The document that \<^verbatim>\<open>createReservation\<close> builds from its input.\<close>

definition reservationDataOf :: "int \<Rightarrow> CreateReservationInput \<Rightarrow> reservation" where
  "reservationDataOf now input =
     \<lparr> guestName = input_guestName input,
       email = input_email input,
       phone = input_phone input,
       partySize = JsNum (input_partySize input),
       date = input_date input,
       time = input_time input,
       seatingType = input_seatingType input,
       status = confirmed,
       specialRequests = input_specialRequests input,
       createdAt = now,
       updatedAt = now,
       cancelledAt = None,
       cancellationReason = None \<rparr>"

definition createReservation ::
    "settings \<Rightarrow> int \<Rightarrow> string \<Rightarrow> CreateReservationInput \<Rightarrow> database
       \<Rightarrow> (error + string \<times> reservation) \<times> database" where
  "createReservation cfg now newId input db =
     (let reservationDate = input_date input
      in if \<not> isDateWithinBookingWindow cfg now reservationDate
         then (Inl (ValidationError OutsideBookingWindow), db)
         else
           (case checkAndReserveSlot cfg now newId reservationDate (input_time input)
                   (input_seatingType input) (input_partySize input)
                   (reservationDataOf now input) db of
              (Inl e, db') \<Rightarrow> (Inl e, db')
            | (Inr reservationId, db') \<Rightarrow>
                (case map_of (reservations db') reservationId of
                   None \<Rightarrow> (Inl TypeError, db')
                 | Some createdData \<Rightarrow> (Inr (reservationId, createdData), db'))))"

definition getReservation :: "database \<Rightarrow> string \<Rightarrow> error + string \<times> reservation" where
  "getReservation db reservationId =
     (case map_of (reservations db) reservationId of
        None \<Rightarrow> Inl NotFoundError
      | Some doc \<Rightarrow> Inr (reservationId, doc))"

text \<open>
  \<^verbatim>\<open>ALLOWED_STATUS_TRANSITIONS\<close> of \<^verbatim>\<open>config/constants\<close> is not among the sources:
  the table is a parameter \<open>tbl\<close>, an object from a status to the list of the statuses
  that may follow it, in which a status may have no entry.
\<close>

type_synonym transitionTable = "ReservationStatus \<Rightarrow> ReservationStatus list option"

definition validateStatusTransition ::
    "transitionTable \<Rightarrow> ReservationStatus \<Rightarrow> ReservationStatus \<Rightarrow> bool" where
  "validateStatusTransition tbl currentStatus newStatus =
     (let allowedTransitions = (case tbl currentStatus of None \<Rightarrow> [] | Some l \<Rightarrow> l)
      in newStatus \<in> set allowedTransitions)"

text \<open>
  Modelled from the spec: of the content of \<^verbatim>\<open>ALLOWED_STATUS_TRANSITIONS\<close> the spec
  fixes that cancelled, completed and no-show are terminal, with no outbound
  transitions.
\<close>

definition terminalRowsEmpty :: "transitionTable \<Rightarrow> bool" where
  "terminalRowsEmpty tbl =
     ((tbl cancelled = None \<or> tbl cancelled = Some [])
      \<and> (tbl completed = None \<or> tbl completed = Some [])
      \<and> (tbl no_show = None \<or> tbl no_show = Some []))"

text \<open>A string argument that JavaScript takes as true: given and not empty.\<close>

definition truthy :: "string option \<Rightarrow> bool" where
  "truthy s = (case s of None \<Rightarrow> False | Some str \<Rightarrow> str \<noteq> [])"

definition updateReservationStatus ::
    "transitionTable \<Rightarrow> int \<Rightarrow> string \<Rightarrow> ReservationStatus \<Rightarrow> string option \<Rightarrow> database
       \<Rightarrow> (error + string \<times> reservation) \<times> database" where
  "updateReservationStatus tbl now reservationId newStatus reasonGiven db =
     (case map_of (reservations db) reservationId of
        None \<Rightarrow> (Inl NotFoundError, db)
      | Some currentData \<Rightarrow>
          (let currentStatus = status currentData
           in if \<not> validateStatusTransition tbl currentStatus newStatus
              then (Inl (ValidationError (CannotTransition currentStatus newStatus)), db)
              else
                (let u1 = currentData \<lparr> status := newStatus, updatedAt := now \<rparr>;
                     u2 = (if newStatus = cancelled
                           then (let u = u1 \<lparr> cancelledAt := Some now \<rparr>
                                 in if truthy reasonGiven
                                    then u \<lparr> cancellationReason := reasonGiven \<rparr> else u)
                           else u1);
                     db' = db \<lparr> reservations :=
                                  AList.update reservationId u2 (reservations db) \<rparr>
                 in (getReservation db' reservationId, db'))))"

definition cancelReservation ::
    "settings \<Rightarrow> transitionTable \<Rightarrow> int \<Rightarrow> string \<Rightarrow> string option \<Rightarrow> database
       \<Rightarrow> (error + string \<times> reservation) \<times> database" where
  "cancelReservation cfg tbl now reservationId reasonGiven db =
     (case getReservation db reservationId of
        Inl e \<Rightarrow> (Inl e, db)
      | Inr (i, r) \<Rightarrow>
          if status r = cancelled then (Inl (ValidationError AlreadyCancelled), db)
          else if status r = completed \<or> status r = no_show
          then (Inl (ValidationError (CannotCancel (status r))), db)
          else
            (let reservationDateTime = date r;
                 hoursUntilReservation = getHoursBetween now reservationDateTime;
                 cancellationWindow = getCancellationWindow cfg
             in if hoursUntilReservation < of_int cancellationWindow
                then (Inl (PreconditionFailedError cancellationWindow
                             \<lfloor>hoursUntilReservation\<rfloor>), db)
                else updateReservationStatus tbl now reservationId cancelled reasonGiven db))"

text \<open>
  The filters of \<^verbatim>\<open>listReservations\<close>; each may be absent, and so may the whole
  object. \<^verbatim>\<open>limit\<close> and \<^verbatim>\<open>offset\<close> are the non-negative integers a Firestore query
  accepts.
\<close>

record listFilters =
  filterStatus :: "ReservationStatus option"
  filterDate :: "int option"
  filterEmail :: "string option"
  filterSeatingType :: "string option"
  filterLimit :: "nat option"
  filterOffset :: "nat option"

record listResult =
  listed :: "(string \<times> reservation) list"
  total :: nat

definition seatingTypeName :: "SeatingType \<Rightarrow> string" where
  "seatingTypeName stype = (case stype of indoor \<Rightarrow> ''indoor'' | balcony \<Rightarrow> ''balcony'')"

text \<open>The optional chaining \<^verbatim>\<open>filters?.field\<close>.\<close>

definition filterField :: "(listFilters \<Rightarrow> 'a option) \<Rightarrow> listFilters option \<Rightarrow> 'a option" where
  "filterField field filters = (case filters of None \<Rightarrow> None | Some fs \<Rightarrow> field fs)"

text \<open>
  \<^verbatim>\<open>orderBy('date', 'desc')\<close>: by date, later first, documents of one date by
  descending id.
\<close>

definition orderByDateDesc :: "(string \<times> reservation) list \<Rightarrow> (string \<times> reservation) list" where
  "orderByDateDesc docs = rev (sort_key (\<lambda>(i, r). (date r, i)) docs)"

text \<open>
  The query that \<^verbatim>\<open>listReservations\<close> builds before it sets the limit and the offset:
  the documents that match the filters, in order.
\<close>

definition filteredQuery :: "database \<Rightarrow> listFilters option \<Rightarrow> (string \<times> reservation) list" where
  "filteredQuery db filters =
     (let q0 = orderByDateDesc (reservations db);
          q1 = (case filterField filterStatus filters of
                  None \<Rightarrow> q0
                | Some s \<Rightarrow> filter (\<lambda>(i, r). status r = s) q0);
          q2 = (case filterField filterDate filters of
                  None \<Rightarrow> q1
                | Some fd \<Rightarrow>
                    filter (\<lambda>(i, r). getStartOfDay fd \<le> date r \<and> date r \<le> getEndOfDay fd) q1);
          q3 = (if truthy (filterField filterEmail filters)
                then filter (\<lambda>(i, r). Some (email r) = filterField filterEmail filters) q2
                else q2);
          q4 = (if truthy (filterField filterSeatingType filters)
                then filter (\<lambda>(i, r). Some (seatingTypeName (seatingType r))
                                         = filterField filterSeatingType filters) q3
                else q3)
      in q4)"

text \<open>\<^verbatim>\<open>filters?.limit || 50\<close> and \<^verbatim>\<open>filters?.offset || 0\<close>.\<close>

definition limitOf :: "listFilters option \<Rightarrow> nat" where
  "limitOf filters =
     (case filterField filterLimit filters of None \<Rightarrow> 50 | Some n \<Rightarrow> if n = 0 then 50 else n)"

definition offsetOf :: "listFilters option \<Rightarrow> nat" where
  "offsetOf filters =
     (case filterField filterOffset filters of None \<Rightarrow> 0 | Some n \<Rightarrow> if n = 0 then 0 else n)"

text \<open>
  The snapshot of the query with its limit and offset: the store skips \<open>offset\<close>
  documents and returns at most \<open>limit\<close>.
\<close>

definition listReservations :: "database \<Rightarrow> listFilters option \<Rightarrow> listResult" where
  "listReservations db filters =
     (let limit = limitOf filters;
          offset = offsetOf filters;
          docs = take limit (drop offset (filteredQuery db filters))
      in \<lparr> listed = docs, total = length docs \<rparr>)"

section \<open>Concurrent calls\<close>

text \<open>
  Calls of \<^verbatim>\<open>createReservation\<close> that run at the same time. \<^verbatim>\<open>db.runTransaction\<close> is
  the store's, not the repository's, and the source relies on it as its comment says:
  ``Read slot lock first so concurrent writes force a retry''. The contract, as the
  spec describes it: the update function of a call runs on the database as it is when
  the function reads; the store keeps for every slot-lock document a version, which
  each committed write of the document advances; a commit applies the staged writes
  when the slot-lock document still has the version that was read, and otherwise the
  update function runs again, on the database as it is then. An error that the update
  function throws ends the call without a write. One reading of the clock serves a
  whole call.
\<close>

record request =
  requestNow :: int
  requestInput :: CreateReservationInput

text \<open>
  A call inside \<^verbatim>\<open>runTransaction\<close>: its request, the version of the slot-lock
  document that its update function read, and what the function staged or threw.
\<close>

record attempt =
  attemptRequest :: request
  readVersion :: nat
  staged :: "error + transactionWrites"

text \<open>
  The database, the versions of the slot-lock documents, the calls inside
  \<^verbatim>\<open>runTransaction\<close> by the id that \<^verbatim>\<open>doc()\<close> generated for them, and the results of
  the calls that have returned.
\<close>

record system =
  store :: database
  lockVersions :: "(slotKey \<times> nat) list"
  running :: "(string \<times> attempt) list"
  returned :: "(string \<times> (error + string \<times> reservation)) list"

text \<open>
  What can happen next: a call starts with a newly generated id, the store makes a
  transaction run its update function again, a transaction tries to commit, a
  transaction gives up its retries.
\<close>

datatype event = Call string request | Rerun string | Commit string | GiveUp string

definition requestKey :: "request \<Rightarrow> slotKey" where
  "requestKey req =
     (formatDateKey (input_date (requestInput req)), input_time (requestInput req),
      input_seatingType (requestInput req))"

definition versionOf :: "(slotKey \<times> nat) list \<Rightarrow> slotKey \<Rightarrow> nat" where
  "versionOf vs k = (case map_of vs k of None \<Rightarrow> 0 | Some n \<Rightarrow> n)"

definition runUpdateFunction ::
    "settings \<Rightarrow> string \<Rightarrow> request \<Rightarrow> database \<Rightarrow> error + transactionWrites" where
  "runUpdateFunction cfg rid req db =
     reserveTransaction cfg (requestNow req) rid (input_date (requestInput req))
       (input_time (requestInput req)) (input_seatingType (requestInput req))
       (input_partySize (requestInput req))
       (reservationDataOf (requestNow req) (requestInput req)) db"

text \<open>
  A run of the update function of a call: it reads the slot-lock document, whose version
  the store notes, and stages its writes or throws.
\<close>

definition startAttempt :: "settings \<Rightarrow> string \<Rightarrow> request \<Rightarrow> system \<Rightarrow> attempt" where
  "startAttempt cfg rid req s =
     \<lparr> attemptRequest = req,
       readVersion = versionOf (lockVersions s) (requestKey req),
       staged = runUpdateFunction cfg rid req (store s) \<rparr>"

text \<open>The read of the created document with which \<^verbatim>\<open>createReservation\<close> ends.\<close>

definition readBack :: "database \<Rightarrow> string \<Rightarrow> error + string \<times> reservation" where
  "readBack db rid =
     (case map_of (reservations db) rid of
        None \<Rightarrow> Inl TypeError
      | Some createdData \<Rightarrow> Inr (rid, createdData))"

text \<open>
  One event. An event that cannot happen, the start of a call with an id in use or an
  event of a call that is not inside \<^verbatim>\<open>runTransaction\<close>, has no next state.
\<close>

fun step :: "settings \<Rightarrow> system \<Rightarrow> event \<Rightarrow> system option" where
  "step cfg s (Call rid req) =
     (if rid \<in> fst ` set (reservations (store s)) \<or> rid \<in> fst ` set (running s) then None
      else if \<not> isDateWithinBookingWindow cfg (requestNow req) (input_date (requestInput req))
      then Some (s \<lparr> returned :=
                       returned s @ [(rid, Inl (ValidationError OutsideBookingWindow))] \<rparr>)
      else Some (s \<lparr> running := AList.update rid (startAttempt cfg rid req s) (running s) \<rparr>))"
| "step cfg s (Rerun rid) =
     (case map_of (running s) rid of
        None \<Rightarrow> None
      | Some a \<Rightarrow>
          Some (s \<lparr> running :=
                     AList.update rid (startAttempt cfg rid (attemptRequest a) s) (running s) \<rparr>))"
| "step cfg s (Commit rid) =
     (case map_of (running s) rid of
        None \<Rightarrow> None
      | Some a \<Rightarrow>
          (case staged a of
             Inl e \<Rightarrow>
               Some (s \<lparr> running := AList.delete rid (running s),
                         returned := returned s @ [(rid, Inl e)] \<rparr>)
           | Inr w \<Rightarrow>
               if versionOf (lockVersions s) (slotLockRef w) = readVersion a
               then (let db' = commitWrites w (store s)
                     in Some (s \<lparr> store := db',
                                 lockVersions :=
                                   AList.update (slotLockRef w)
                                     (Suc (versionOf (lockVersions s) (slotLockRef w)))
                                     (lockVersions s),
                                 running := AList.delete rid (running s),
                                 returned := returned s @ [(rid, readBack db' rid)] \<rparr>))
               else Some (s \<lparr> running :=
                                AList.update rid (startAttempt cfg rid (attemptRequest a) s)
                                  (running s) \<rparr>)))"
| "step cfg s (GiveUp rid) =
     (case map_of (running s) rid of
        None \<Rightarrow> None
      | Some a \<Rightarrow>
          Some (s \<lparr> running := AList.delete rid (running s),
                    returned := returned s @ [(rid, Inl Aborted)] \<rparr>))"

fun run :: "settings \<Rightarrow> system \<Rightarrow> event list \<Rightarrow> system option" where
  "run cfg s [] = Some s"
| "run cfg s (e # es) = (case step cfg s e of None \<Rightarrow> None | Some s' \<Rightarrow> run cfg s' es)"

definition initialSystem :: "database \<Rightarrow> system" where
  "initialSystem db = \<lparr> store = db, lockVersions = [], running = [], returned = [] \<rparr>"

definition created :: "system \<Rightarrow> (string \<times> reservation) list" where
  "created s =
     concat (map (\<lambda>(rid, res). case res of Inl e \<Rightarrow> [] | Inr doc \<Rightarrow> [doc]) (returned s))"

section \<open>Invariant of the concurrent calls\<close>

text \<open>The writes that a call stages when its update function does not throw.\<close>

definition writesOf :: "string \<Rightarrow> request \<Rightarrow> transactionWrites" where
  "writesOf rid req =
     \<lparr> reservationRef = rid,
       reservationDoc = reservationDataOf (requestNow req) (requestInput req),
       slotLockRef = requestKey req,
       slotLockDoc = \<lparr> lastReservationId = rid, lastReservationAt = requestNow req \<rparr> \<rparr>"

text \<open>The booked count of a slot, as the query and the \<^verbatim>\<open>reduce\<close> compute it.\<close>

definition occupied :: "database \<Rightarrow> int \<Rightarrow> string \<Rightarrow> SeatingType \<Rightarrow> int" where
  "occupied db d tm stype = sumPartySize (slotQuery db d tm stype)"

text \<open>
  What holds of every call inside \<^verbatim>\<open>runTransaction\<close>: its id is unused, the version
  it read is not ahead of the store's, its staged writes are those of its request, and
  while the version it read is the current one, the slot has room for its party.
\<close>

definition attemptInv ::
    "settings \<Rightarrow> int \<Rightarrow> string \<Rightarrow> SeatingType \<Rightarrow> database \<Rightarrow> (slotKey \<times> nat) list
       \<Rightarrow> string \<Rightarrow> attempt \<Rightarrow> bool" where
  "attemptInv cfg d tm stype db vs rid a =
     (rid \<notin> fst ` set (reservations db)
      \<and> readVersion a \<le> versionOf vs (requestKey (attemptRequest a))
      \<and> (\<forall>w. staged a = Inr w \<longrightarrow>
             w = writesOf rid (attemptRequest a)
             \<and> (requestKey (attemptRequest a) = (formatDateKey d, tm, stype)
                  \<and> readVersion a = versionOf vs (requestKey (attemptRequest a))
                \<longrightarrow> occupied db d tm stype
                      + input_partySize (requestInput (attemptRequest a))
                    \<le> getCapacity cfg stype)))"

definition sysInv :: "settings \<Rightarrow> int \<Rightarrow> string \<Rightarrow> SeatingType \<Rightarrow> system \<Rightarrow> bool" where
  "sysInv cfg d tm stype s =
     (occupied (store s) d tm stype \<le> getCapacity cfg stype
      \<and> (\<forall>rid a. map_of (running s) rid = Some a
             \<longrightarrow> attemptInv cfg d tm stype (store s) (lockVersions s) rid a))"

text \<open>
  The seats, at a slot, of the reservations that the returned calls created, and the
  seats of the slot that come from elsewhere.
\<close>

definition createdOccupied :: "system \<Rightarrow> int \<Rightarrow> string \<Rightarrow> SeatingType \<Rightarrow> int" where
  "createdOccupied s d tm stype =
     occupied \<lparr> reservations = created s, slotLocks = [], blockedDates = [] \<rparr> d tm stype"

definition balance :: "system \<Rightarrow> int \<Rightarrow> string \<Rightarrow> SeatingType \<Rightarrow> int" where
  "balance s d tm stype = occupied (store s) d tm stype - createdOccupied s d tm stype"

section \<open>The spec's occupancy\<close>

text \<open>
  The spec's words for the booked count, to compare with what the query and the
  \<^verbatim>\<open>reduce\<close> of the source compute: the sum of \<^verbatim>\<open>partySize\<close> over the reservations
  of that exact date, time and seating type whose status is one of the occupying
  states confirmed, pending, seated.
\<close>

definition spec_occupying :: "ReservationStatus \<Rightarrow> bool" where
  "spec_occupying s = (s = confirmed \<or> s = pending \<or> s = seated)"

definition spec_bookedCount :: "database \<Rightarrow> int \<Rightarrow> string \<Rightarrow> SeatingType \<Rightarrow> int" where
  "spec_bookedCount db d tm stype =
     sum_list (map (\<lambda>(i, r).
                      if formatDateKey (date r) = formatDateKey d \<and> time r = tm
                         \<and> seatingType r = stype \<and> spec_occupying (status r)
                      then (case partySize r of JsNum n \<Rightarrow> n | JsNull \<Rightarrow> 0 | JsMissing \<Rightarrow> 0)
                      else 0)
                   (reservations db))"

text \<open>
  The document after the \<^verbatim>\<open>update\<close> of \<^verbatim>\<open>updateReservationStatus\<close>, field by
  field: the new status and timestamp, the cancellation time when the new status is
  cancelled, and the cancellation reason when, besides, one is given.
\<close>

definition statusUpdated :: "int \<Rightarrow> ReservationStatus \<Rightarrow> string option \<Rightarrow> reservation \<Rightarrow> reservation" where
  "statusUpdated now newStatus reasonGiven r =
     r \<lparr> status := newStatus, updatedAt := now,
         cancelledAt := (if newStatus = cancelled then Some now else cancelledAt r),
         cancellationReason := (if newStatus = cancelled \<and> truthy reasonGiven
                                then reasonGiven else cancellationReason r) \<rparr>"

text \<open>
  The spec's invariant of a reservation record: a party size of at least 1 and a time
  that is one of the configured time slots. No per-reservation maximum is configured
  in the settings.
\<close>

definition spec_validReservation :: "settings \<Rightarrow> reservation \<Rightarrow> bool" where
  "spec_validReservation cfg r =
     ((case partySize r of JsNum n \<Rightarrow> 1 \<le> n | JsNull \<Rightarrow> False | JsMissing \<Rightarrow> False)
      \<and> time r \<in> set (timeSlots cfg))"

section \<open>The spec's hours until a reservation\<close>

text \<open>
  The spec's words for the gap of a cancellation: the hours between now and the
  reservation's date and time, where the date is a calendar date with the time of day
  stripped and the time is the slot label, hours and minutes as in 18:30.
\<close>

definition spec_digit :: "char \<Rightarrow> int" where
  "spec_digit c = of_char c - 48"

definition spec_slotTimeMs :: "string \<Rightarrow> int" where
  "spec_slotTimeMs label =
     (case label of
        [h1, h2, c, m1, m2] \<Rightarrow>
          ((spec_digit h1 * 10 + spec_digit h2) * 60 + (spec_digit m1 * 10 + spec_digit m2)) * 60000
      | _ \<Rightarrow> 0)"

definition spec_reservationDateTime :: "reservation \<Rightarrow> int" where
  "spec_reservationDateTime r = getStartOfDay (date r) + spec_slotTimeMs (time r)"

definition spec_hoursUntil :: "int \<Rightarrow> reservation \<Rightarrow> rat" where
  "spec_hoursUntil now r = getHoursBetween now (spec_reservationDateTime r)"

section \<open>Example data\<close>

text \<open>
  The scenario of the spec: a balcony of capacity 10, the slot 19:00 of a date \<open>D\<close>
  (noon of day 20000 after the epoch), and a confirmed party of 6.
\<close>

definition exampleSettings :: settings where
  "exampleSettings =
     \<lparr> capacities_indoor = 20, capacities_balcony = 10,
       timeSlots = [''18:00'', ''19:00''],
       maxAdvanceBookingDays = 30, cancellationWindowHours = 24 \<rparr>"

definition exampleDate :: int where
  "exampleDate = 1728043200000"

definition exampleReservation :: reservation where
  "exampleReservation =
     \<lparr> guestName = ''Ada'', email = ''ada@example.org'', phone = ''555-0100'',
       partySize = JsNum 6, date = exampleDate, time = ''19:00'',
       seatingType = balcony, status = confirmed, specialRequests = None,
       createdAt = 1727000000000, updatedAt = 1727000000000,
       cancelledAt = None, cancellationReason = None \<rparr>"

definition emptyDatabase :: database where
  "emptyDatabase = \<lparr> reservations = [], slotLocks = [], blockedDates = [] \<rparr>"

definition exampleNow :: int where
  "exampleNow = 1727784000000"

definition exampleInput :: CreateReservationInput where
  "exampleInput =
     \<lparr> input_guestName = ''Ada'', input_email = ''ada@example.org'',
       input_phone = ''555-0100'', input_partySize = 6, input_date = exampleDate,
       input_time = ''19:00'', input_seatingType = balcony,
       input_specialRequests = None \<rparr>"

definition exampleListing :: database where
  "exampleListing =
     emptyDatabase \<lparr> reservations :=
       [(''a'', exampleReservation),
        (''b'', exampleReservation \<lparr> date := exampleDate + 86400000 \<rparr>),
        (''c'', exampleReservation \<lparr> status := cancelled \<rparr>)] \<rparr>"

definition exampleFilters :: listFilters where
  "exampleFilters =
     \<lparr> filterStatus = None, filterDate = None, filterEmail = Some ''ada@example.org'',
       filterSeatingType = None, filterLimit = Some 2, filterOffset = None \<rparr>"

text \<open>
  A reservation for 19:00 whose stored date has the time of day stripped, and noon of
  the day before: 31 hours before the seating, 12 hours before the stored date.
\<close>

definition eveningReservation :: reservation where
  "eveningReservation = exampleReservation \<lparr> date := 1728000000000 \<rparr>"

definition noonBefore :: int where
  "noonBefore = 1727956800000"

text \<open>
  An example of a transition table whose terminal rows are empty or absent; the table of
  the repository is not among the sources.
\<close>

definition exampleTransitions :: transitionTable where
  "exampleTransitions s =
     (case s of
        pending \<Rightarrow> Some [confirmed, cancelled]
      | confirmed \<Rightarrow> Some [seated, cancelled, no_show]
      | seated \<Rightarrow> Some [completed]
      | completed \<Rightarrow> Some []
      | cancelled \<Rightarrow> Some []
      | no_show \<Rightarrow> None)"

text \<open>
  The race of the spec's scenario: two calls for a party of 6 on the balcony of capacity
  10 both run their update function on the empty slot; the first commits; the second
  finds the slot lock written, runs again and fails with 4 seats remaining.
\<close>

definition exampleRequest :: request where
  "exampleRequest = \<lparr> requestNow = exampleNow, requestInput = exampleInput \<rparr>"

definition raceEvents :: "event list" where
  "raceEvents =
     [Call ''a'' exampleRequest, Call ''b'' exampleRequest, Commit ''a'', Commit ''b'',
      Commit ''b'']"

definition raceOutcome :: system where
  "raceOutcome =
     \<lparr> store =
         \<lparr> reservations = [(''a'', reservationDataOf exampleNow exampleInput)],
           slotLocks = [((20000, ''19:00'', balcony),
                         \<lparr> lastReservationId = ''a'', lastReservationAt = exampleNow \<rparr>)],
           blockedDates = [] \<rparr>,
       lockVersions = [((20000, ''19:00'', balcony), 1)],
       running = [],
       returned = [(''a'', Inr (''a'', reservationDataOf exampleNow exampleInput)),
                   (''b'', Inl (ResourceExhaustedError 4))] \<rparr>"

section \<open>Days and sums\<close>

lemma day_range_gen:
  assumes n: "0 < (n::int)"
  shows "(d - d mod n \<le> x \<and> x \<le> d - d mod n + (n - 1)) = (x div n = d div n)"
proof
  assume a: "d - d mod n \<le> x \<and> x \<le> d - d mod n + (n - 1)"
  have e: "d - d mod n = n * (d div n)"
    by (simp add: minus_mod_eq_mult_div)
  define r where "r = x - n * (d div n)"
  have "x = n * (d div n) + r" by (simp add: r_def)
  moreover have "0 \<le> r" using a e by (simp add: r_def)
  moreover have "r < n" using a e by (simp add: r_def)
  ultimately show "x div n = d div n"
    by (rule int_div_pos_eq)
next
  assume b: "x div n = d div n"
  have e: "d - d mod n = n * (x div n)"
    using b by (simp add: minus_mod_eq_mult_div)
  have "0 \<le> x mod n" and "x mod n < n" using n by simp_all
  moreover have "x = n * (x div n) + x mod n" by simp
  ultimately show "d - d mod n \<le> x \<and> x \<le> d - d mod n + (n - 1)"
    using e by linarith
qed

text \<open>The range of the query is the day of its date.\<close>

lemma same_day_range:
  "(getStartOfDay d \<le> x \<and> x \<le> getEndOfDay d) = (formatDateKey x = formatDateKey d)"
  unfolding getStartOfDay_def getEndOfDay_def formatDateKey_def
  by (rule day_range_gen) (simp add: msPerDay_def)

lemma same_day_range_conj:
  "(getStartOfDay d \<le> x \<and> x \<le> getEndOfDay d \<and> Q) = (formatDateKey x = formatDateKey d \<and> Q)"
  using same_day_range [of d x] by blast

lemma foldl_partySize:
  "foldl (\<lambda>sum (i, r). sum + orZero (partySize r)) a docs
     = a + sum_list (map (\<lambda>(i, r). orZero (partySize r)) docs)"
  by (induction docs arbitrary: a) (auto simp: case_prod_beta)

lemma sumPartySize_sum_list:
  "sumPartySize docs = sum_list (map (\<lambda>(i, r). orZero (partySize r)) docs)"
  by (simp add: sumPartySize_def foldl_partySize)

lemma sumPartySize_Nil: "sumPartySize [] = 0"
  by (simp add: sumPartySize_def)

lemma sumPartySize_Cons:
  "sumPartySize ((i, r) # ys) = orZero (partySize r) + sumPartySize ys"
  by (simp add: sumPartySize_sum_list)

lemma sumPartySize_append:
  "sumPartySize (xs @ ys) = sumPartySize xs + sumPartySize ys"
  by (simp add: sumPartySize_sum_list)

lemma orZero_cases: "orZero v = (case v of JsNum n \<Rightarrow> n | JsNull \<Rightarrow> 0 | JsMissing \<Rightarrow> 0)"
  by (simp add: orZero_def split: jsfield.split)

lemma sumPartySize_filter:
  "sumPartySize (filter P xs)
     = sum_list (map (\<lambda>x. if P x then orZero (partySize (snd x)) else 0) xs)"
  by (induction xs) (auto simp: sumPartySize_sum_list case_prod_beta)

lemma slotQuery_sum:
  "sumPartySize (slotQuery db d tm stype) = spec_bookedCount db d tm stype"
  unfolding slotQuery_def spec_bookedCount_def sumPartySize_filter
  by (rule arg_cong[where f=sum_list], rule map_cong, rule refl)
     (auto simp: same_day_range_conj spec_occupying_def orZero_cases case_prod_beta)

text \<open>The definitions that the evaluation of the examples unfolds.\<close>

lemmas eval_defs =
  calculateSlotAvailability_def slotQuery_def sumPartySize_def orZero_def getCapacity_def
  getStartOfDay_def getEndOfDay_def formatDateKey_def msPerDay_def
  checkAndReserveSlot_def reserveTransaction_def commitWrites_def
  exampleSettings_def exampleDate_def exampleReservation_def emptyDatabase_def Let_def

section \<open>Availability calculator: the contract\<close>

text \<open>
  Claim C3. For every date, time, seating type and every stored set of reservations,
  \<^verbatim>\<open>calculateSlotAvailability\<close> returns as \<^verbatim>\<open>bookedCount\<close> the sum of
  \<^verbatim>\<open>partySize\<close> over exactly the reservations of that day, time and seating type
  whose status is confirmed, pending or seated, as \<^verbatim>\<open>remainingCapacity\<close> the
  maximum of 0 and the total capacity less that sum, and as \<^verbatim>\<open>available\<close> whether
  the remaining capacity is positive; completed, cancelled and no-show are not
  occupying. The function is a pure function of the database.
\<close>

theorem calculateSlotAvailability_contract:
  "calculateSlotAvailability cfg db d tm stype =
     \<lparr> available = (0 < max 0 (getCapacity cfg stype - spec_bookedCount db d tm stype)),
       remainingCapacity = max 0 (getCapacity cfg stype - spec_bookedCount db d tm stype),
       totalCapacity = getCapacity cfg stype,
       bookedCount = spec_bookedCount db d tm stype \<rparr>
   \<and> \<not> spec_occupying completed \<and> \<not> spec_occupying cancelled \<and> \<not> spec_occupying no_show"
  by (simp add: calculateSlotAvailability_def Let_def slotQuery_sum spec_occupying_def)

section \<open>Malformed party sizes\<close>

lemma orZero_malformed:
  "partySize r = JsMissing \<or> partySize r = JsNull \<or> partySize r = JsNum 0
     \<Longrightarrow> orZero (partySize r) = 0"
  by (auto simp: orZero_def)

lemma malformed_slotQuery:
  assumes "partySize r = JsMissing \<or> partySize r = JsNull \<or> partySize r = JsNum 0"
  shows "sumPartySize (slotQuery (db \<lparr> reservations := xs @ (i, r) # ys \<rparr>) d tm stype)
         = sumPartySize (slotQuery (db \<lparr> reservations := xs @ ys \<rparr>) d tm stype)"
  using orZero_malformed [OF assms]
  by (simp add: slotQuery_def sumPartySize_append sumPartySize_Cons)

text \<open>
  Claim C10. In both \<^verbatim>\<open>calculateSlotAvailability\<close> and the transaction of
  \<^verbatim>\<open>checkAndReserveSlot\<close>, a stored reservation whose \<^verbatim>\<open>partySize\<close> is missing,
  null or 0 contributes 0 to the booked count: with the document \<open>(i, r)\<close> anywhere
  in the collection, the booked count, the remaining capacity and the outcome of the
  transaction are those of the collection without it. The sum is an \<open>int\<close> in every
  case.
\<close>

theorem malformed_partySize_counts_zero:
  assumes "partySize r = JsMissing \<or> partySize r = JsNull \<or> partySize r = JsNum 0"
  shows "bookedCount (calculateSlotAvailability cfg (db \<lparr> reservations := xs @ (i, r) # ys \<rparr>) d tm stype)
           = bookedCount (calculateSlotAvailability cfg (db \<lparr> reservations := xs @ ys \<rparr>) d tm stype)
       \<and> remainingCapacity (calculateSlotAvailability cfg (db \<lparr> reservations := xs @ (i, r) # ys \<rparr>) d tm stype)
           = remainingCapacity (calculateSlotAvailability cfg (db \<lparr> reservations := xs @ ys \<rparr>) d tm stype)
       \<and> reserveTransaction cfg now newId d tm stype psize payload (db \<lparr> reservations := xs @ (i, r) # ys \<rparr>)
           = reserveTransaction cfg now newId d tm stype psize payload (db \<lparr> reservations := xs @ ys \<rparr>)"
  by (simp add: calculateSlotAvailability_def reserveTransaction_def Let_def
      malformed_slotQuery [OF assms])

theorem malformed_partySize_counts_zero_witness:
  "partySize (exampleReservation \<lparr> partySize := JsMissing \<rparr>) = JsMissing
   \<and> bookedCount (calculateSlotAvailability exampleSettings
                (emptyDatabase \<lparr> reservations :=
                   [(''r1'', exampleReservation)]
                   @ (''r2'', exampleReservation \<lparr> partySize := JsMissing \<rparr>) # [] \<rparr>)
                exampleDate ''19:00'' balcony) = 6"
proof -
  have h: "partySize (exampleReservation \<lparr> partySize := JsMissing \<rparr>) = JsMissing
           \<or> partySize (exampleReservation \<lparr> partySize := JsMissing \<rparr>) = JsNull
           \<or> partySize (exampleReservation \<lparr> partySize := JsMissing \<rparr>) = JsNum 0"
    by simp
  from malformed_partySize_counts_zero [OF h, where cfg = exampleSettings
      and db = emptyDatabase and xs = "[(''r1'', exampleReservation)]" and i = "''r2''"
      and ys = "[]" and d = exampleDate and tm = "''19:00''" and stype = balcony]
  show ?thesis
    by (simp add: calculateSlotAvailability_def slotQuery_def sumPartySize_def orZero_def
        exampleReservation_def getStartOfDay_def getEndOfDay_def msPerDay_def
        exampleDate_def Let_def)
qed

section \<open>Transactional slot reservation: outcomes\<close>

lemma update_fresh:
  "k \<notin> fst ` set al \<Longrightarrow> AList.update k v al = al @ [(k, v)]"
  by (induction al) auto

lemma map_of_update_same: "map_of (AList.update k v al) k = Some v"
  by (simp add: update_conv')

lemma map_of_update_other: "k' \<noteq> k \<Longrightarrow> map_of (AList.update k v al) k' = map_of al k'"
  by (simp add: update_conv')

lemma bookedCount_calc:
  "bookedCount (calculateSlotAvailability cfg db d tm stype) = sumPartySize (slotQuery db d tm stype)"
  by (simp add: calculateSlotAvailability_def Let_def)

text \<open>
  Claim C2. In every call of \<^verbatim>\<open>checkAndReserveSlot\<close> in which the recomputed remaining
  capacity, the total capacity less the booked count, is less than the party size, the
  call fails with the capacity-exhausted error that reports the remaining count clamped
  below at 0, and the database is unchanged: no reservation is created and no slot lock
  written. Otherwise, the generated id being new, the call returns that id, the
  reservations are the old ones and the one new document, the slot lock of the key
  records the new id, and nothing else changes.
\<close>

theorem checkAndReserveSlot_outcomes:
  "(getCapacity cfg stype - bookedCount (calculateSlotAvailability cfg db d tm stype) < psize
      \<longrightarrow> checkAndReserveSlot cfg now newId d tm stype psize payload db
            = (Inl (ResourceExhaustedError
                      (max 0 (getCapacity cfg stype
                              - bookedCount (calculateSlotAvailability cfg db d tm stype)))), db))
   \<and> (\<not> getCapacity cfg stype - bookedCount (calculateSlotAvailability cfg db d tm stype) < psize
        \<and> newId \<notin> fst ` set (reservations db)
      \<longrightarrow> (\<exists>db'. checkAndReserveSlot cfg now newId d tm stype psize payload db = (Inr newId, db')
                \<and> reservations db' = reservations db @ [(newId, payload)]
                \<and> map_of (slotLocks db') (formatDateKey d, tm, stype)
                    = Some \<lparr> lastReservationId = newId, lastReservationAt = now \<rparr>
                \<and> (\<forall>k. k \<noteq> (formatDateKey d, tm, stype)
                         \<longrightarrow> map_of (slotLocks db') k = map_of (slotLocks db) k)
                \<and> blockedDates db' = blockedDates db))"
  by (simp add: checkAndReserveSlot_def reserveTransaction_def commitWrites_def Let_def
      bookedCount_calc update_fresh map_of_update_same map_of_update_other)

theorem checkAndReserveSlot_outcomes_witness:
  "getCapacity exampleSettings balcony
     - bookedCount (calculateSlotAvailability exampleSettings
          (emptyDatabase \<lparr> reservations := [(''r1'', exampleReservation)] \<rparr>)
          exampleDate ''19:00'' balcony) < 6
   \<and> checkAndReserveSlot exampleSettings 1727000000000 ''r2'' exampleDate ''19:00'' balcony 6
        exampleReservation (emptyDatabase \<lparr> reservations := [(''r1'', exampleReservation)] \<rparr>)
      = (Inl (ResourceExhaustedError 4),
         emptyDatabase \<lparr> reservations := [(''r1'', exampleReservation)] \<rparr>)
   \<and> \<not> getCapacity exampleSettings balcony
         - bookedCount (calculateSlotAvailability exampleSettings emptyDatabase
              exampleDate ''19:00'' balcony) < 6
   \<and> ''r1'' \<notin> fst ` set (reservations emptyDatabase)
   \<and> checkAndReserveSlot exampleSettings 1727000000000 ''r1'' exampleDate ''19:00'' balcony 6
        exampleReservation emptyDatabase
      = (Inr ''r1'',
         \<lparr> reservations = [(''r1'', exampleReservation)],
           slotLocks = [((20000, ''19:00'', balcony),
                         \<lparr> lastReservationId = ''r1'', lastReservationAt = 1727000000000 \<rparr>)],
           blockedDates = [] \<rparr>)"
  using checkAndReserveSlot_outcomes [of exampleSettings balcony
      "emptyDatabase \<lparr> reservations := [(''r1'', exampleReservation)] \<rparr>"
      exampleDate "''19:00''" 6 1727000000000 "''r2''" exampleReservation]
    checkAndReserveSlot_outcomes [of exampleSettings balcony emptyDatabase
      exampleDate "''19:00''" 6 1727000000000 "''r1''" exampleReservation]
  by (simp add: eval_defs)

section \<open>Daily availability\<close>

text \<open>
  Claim C8. For every date with a blocked-date document, \<^verbatim>\<open>getDailyAvailability\<close>
  returns \<^verbatim>\<open>isBlocked = true\<close>, no time slots and the stored reason as notes, a result
  in which no capacity or reservation occurs. For every other date it returns one time
  slot per configured slot, in order, whose \<^verbatim>\<open>availableIndoor\<close> and
  \<^verbatim>\<open>availableBalcony\<close> are the remaining capacities of the two categories and whose
  \<^verbatim>\<open>isAvailable\<close> holds exactly when one of the two is positive.
\<close>

theorem getDailyAvailability_contract:
  "(\<forall>b. map_of (blockedDates db) (formatDateKey d) = Some b
       \<longrightarrow> getDailyAvailability cfg db d
            = \<lparr> dailyDate = d, dailyTimeSlots = [], isBlocked = True, dailyNotes = reason b \<rparr>)
   \<and> (map_of (blockedDates db) (formatDateKey d) = None
       \<longrightarrow> isBlocked (getDailyAvailability cfg db d) = False
         \<and> map slotTime (dailyTimeSlots (getDailyAvailability cfg db d)) = timeSlots cfg
         \<and> (\<forall>ts \<in> set (dailyTimeSlots (getDailyAvailability cfg db d)).
               availableIndoor ts
                 = remainingCapacity (calculateSlotAvailability cfg db d (slotTime ts) indoor)
             \<and> availableBalcony ts
                 = remainingCapacity (calculateSlotAvailability cfg db d (slotTime ts) balcony)
             \<and> isAvailable ts = (availableIndoor ts > 0 \<or> availableBalcony ts > 0)))"
  by (auto simp: getDailyAvailability_def Let_def comp_def)

theorem getDailyAvailability_contract_witness:
  "map_of (blockedDates (emptyDatabase \<lparr> blockedDates := [(20000, \<lparr> reason = Some ''private event'' \<rparr>)] \<rparr>))
       (formatDateKey exampleDate) = Some \<lparr> reason = Some ''private event'' \<rparr>
   \<and> getDailyAvailability exampleSettings
        (emptyDatabase \<lparr> blockedDates := [(20000, \<lparr> reason = Some ''private event'' \<rparr>)] \<rparr>)
        exampleDate
      = \<lparr> dailyDate = exampleDate, dailyTimeSlots = [], isBlocked = True,
          dailyNotes = Some ''private event'' \<rparr>
   \<and> map_of (blockedDates (emptyDatabase \<lparr> reservations := [(''r1'', exampleReservation)] \<rparr>))
       (formatDateKey exampleDate) = None
   \<and> getDailyAvailability exampleSettings
        (emptyDatabase \<lparr> reservations := [(''r1'', exampleReservation)] \<rparr>) exampleDate
      = \<lparr> dailyDate = exampleDate,
          dailyTimeSlots =
            [\<lparr> slotTime = ''18:00'', availableIndoor = 20, availableBalcony = 10,
               isAvailable = True \<rparr>,
             \<lparr> slotTime = ''19:00'', availableIndoor = 20, availableBalcony = 4,
               isAvailable = True \<rparr>],
          isBlocked = False, dailyNotes = None \<rparr>"
  using getDailyAvailability_contract [of
      "emptyDatabase \<lparr> blockedDates := [(20000, \<lparr> reason = Some ''private event'' \<rparr>)] \<rparr>"
      exampleDate exampleSettings]
    getDailyAvailability_contract [of
      "emptyDatabase \<lparr> reservations := [(''r1'', exampleReservation)] \<rparr>"
      exampleDate exampleSettings]
  by (simp add: eval_defs getDailyAvailability_def)

section \<open>Listing\<close>

text \<open>
  Claim C9. For every filter combination, the \<^verbatim>\<open>total\<close> that \<^verbatim>\<open>listReservations\<close>
  returns is the number of reservations of the returned page, after the offset and the
  limit (50 by default): it is the length of the returned list, at most the limit, and
  the lesser of the limit and the number of matching reservations beyond the offset,
  not the number of reservations that match the filters.
\<close>

theorem listReservations_total_is_page_size:
  "total (listReservations db filters) = length (listed (listReservations db filters))
   \<and> total (listReservations db filters) \<le> limitOf filters
   \<and> total (listReservations db filters)
       = min (limitOf filters) (length (filteredQuery db filters) - offsetOf filters)"
  by (simp add: listReservations_def Let_def)

lemmas list_defs =
  listReservations_def filteredQuery_def orderByDateDesc_def limitOf_def offsetOf_def
  filterField_def truthy_def seatingTypeName_def exampleListing_def exampleFilters_def

text \<open>Three reservations match the filters; with a limit of 2 the total is 2.\<close>

theorem listReservations_total_is_page_size_witness:
  "total (listReservations exampleListing (Some exampleFilters)) = 2
   \<and> map fst (listed (listReservations exampleListing (Some exampleFilters))) = [''b'', ''c'']
   \<and> length (filteredQuery exampleListing (Some exampleFilters)) = 3"
  using listReservations_total_is_page_size [of exampleListing "Some exampleFilters"]
  by (simp add: list_defs eval_defs)

section \<open>Status transitions\<close>

lemma getHoursBetween_floor: "\<lfloor>getHoursBetween a b\<rfloor> = (b - a) div 3600000"
proof -
  have "getHoursBetween a b = of_int (b - a) / of_int 3600000"
    by (simp add: getHoursBetween_def)
  then show ?thesis
    by (simp only: floor_divide_of_int_eq)
qed

lemma getHoursBetween_less:
  "(getHoursBetween a b < of_int w) = (b - a < w * 3600000)"
proof -
  have "(of_int (b - a) / (3600000::rat) < of_int w) = (of_int (b - a) < (of_int w * 3600000 :: rat))"
    by (simp add: pos_divide_less_eq)
  also have "\<dots> = ((of_int (b - a) :: rat) < of_int (w * 3600000))"
    by simp
  also have "\<dots> = (b - a < w * 3600000)"
    by (simp only: of_int_less_iff)
  finally show ?thesis
    by (simp add: getHoursBetween_def)
qed

lemma getHoursBetween_less_numeral:
  "(getHoursBetween a b < numeral w) = (b - a < numeral w * 3600000)"
  using getHoursBetween_less [of a b "numeral w"] by simp

lemmas lifecycle_defs =
  updateReservationStatus_def cancelReservation_def getReservation_def
  validateStatusTransition_def terminalRowsEmpty_def exampleTransitions_def truthy_def
  statusUpdated_def getHoursBetween_floor getHoursBetween_less_numeral getCancellationWindow_def





section \<open>Cancellation\<close>

lemma updateReservationStatus_errors:
  "fst (updateReservationStatus tbl now rid newStatus reasonGiven db) \<noteq> Inl (PreconditionFailedError a b)"
  by (simp add: updateReservationStatus_def Let_def getReservation_def map_of_update_same
      split: option.split)

text \<open>
  What \<^verbatim>\<open>cancelReservation\<close> does, with the hours that it measures, which are the
  hours from now to the stored \<^verbatim>\<open>date\<close> of the reservation: for a status that is not
  cancelled, completed or no-show it fails with the precondition-failed error, which
  carries the window hours and those hours floored, exactly when those hours are less
  than the cancellation window, and otherwise its result is that of
  \<^verbatim>\<open>updateReservationStatus\<close> with target cancelled. When the status is cancelled,
  completed or no-show it fails with a validation error whatever the hours are.
\<close>

lemma cancelReservation_by_stored_date:
  "(\<forall>r. map_of (reservations db) rid = Some r
        \<and> status r \<noteq> cancelled \<and> status r \<noteq> completed \<and> status r \<noteq> no_show
      \<longrightarrow> (getHoursBetween now (date r) < of_int (getCancellationWindow cfg)
             \<longrightarrow> cancelReservation cfg tbl now rid reasonGiven db
                  = (Inl (PreconditionFailedError (getCancellationWindow cfg)
                            \<lfloor>getHoursBetween now (date r)\<rfloor>), db))
        \<and> (\<not> getHoursBetween now (date r) < of_int (getCancellationWindow cfg)
             \<longrightarrow> cancelReservation cfg tbl now rid reasonGiven db
                  = updateReservationStatus tbl now rid cancelled reasonGiven db)
        \<and> ((\<exists>a b. fst (cancelReservation cfg tbl now rid reasonGiven db)
                     = Inl (PreconditionFailedError a b))
             = (getHoursBetween now (date r) < of_int (getCancellationWindow cfg))))
   \<and> (\<forall>r. map_of (reservations db) rid = Some r \<and> status r = cancelled
      \<longrightarrow> cancelReservation cfg tbl now rid reasonGiven db
            = (Inl (ValidationError AlreadyCancelled), db))
   \<and> (\<forall>r. map_of (reservations db) rid = Some r
        \<and> (status r = completed \<or> status r = no_show)
      \<longrightarrow> cancelReservation cfg tbl now rid reasonGiven db
            = (Inl (ValidationError (CannotCancel (status r))), db))"
  using updateReservationStatus_errors [of tbl now rid cancelled reasonGiven db]
  by (auto simp: cancelReservation_def getReservation_def Let_def)

lemma cancelReservation_by_stored_date_example:
  "map_of (reservations (emptyDatabase \<lparr> reservations := [(''r1'', exampleReservation)] \<rparr>)) ''r1''
       = Some exampleReservation
   \<and> status exampleReservation \<noteq> cancelled \<and> status exampleReservation \<noteq> completed
   \<and> status exampleReservation \<noteq> no_show
   \<and> getHoursBetween (exampleDate - 37800000) (date exampleReservation)
        < of_int (getCancellationWindow exampleSettings)
   \<and> cancelReservation exampleSettings exampleTransitions (exampleDate - 37800000) ''r1''
        (Some ''ill'') (emptyDatabase \<lparr> reservations := [(''r1'', exampleReservation)] \<rparr>)
       = (Inl (PreconditionFailedError 24 10),
          emptyDatabase \<lparr> reservations := [(''r1'', exampleReservation)] \<rparr>)
   \<and> \<not> getHoursBetween (exampleDate - 86400000) (date exampleReservation)
          < of_int (getCancellationWindow exampleSettings)
   \<and> fst (cancelReservation exampleSettings exampleTransitions (exampleDate - 86400000) ''r1''
        (Some ''ill'') (emptyDatabase \<lparr> reservations := [(''r1'', exampleReservation)] \<rparr>))
       = Inr (''r1'', exampleReservation \<lparr> status := cancelled,
                        updatedAt := exampleDate - 86400000,
                        cancelledAt := Some (exampleDate - 86400000),
                        cancellationReason := Some ''ill'' \<rparr>)
   \<and> status (exampleReservation \<lparr> status := completed \<rparr>) = completed
   \<and> cancelReservation exampleSettings exampleTransitions (exampleDate - 86400000) ''r1''
        (Some ''ill'')
        (emptyDatabase \<lparr> reservations := [(''r1'', exampleReservation \<lparr> status := completed \<rparr>)] \<rparr>)
       = (Inl (ValidationError (CannotCancel completed)),
          emptyDatabase \<lparr> reservations := [(''r1'', exampleReservation \<lparr> status := completed \<rparr>)] \<rparr>)
   \<and> cancelReservation exampleSettings exampleTransitions (exampleDate - 86400000) ''r1''
        (Some ''ill'')
        (emptyDatabase \<lparr> reservations := [(''r1'', exampleReservation \<lparr> status := cancelled \<rparr>)] \<rparr>)
       = (Inl (ValidationError AlreadyCancelled),
          emptyDatabase \<lparr> reservations := [(''r1'', exampleReservation \<lparr> status := cancelled \<rparr>)] \<rparr>)"
  using cancelReservation_by_stored_date [of
      "emptyDatabase \<lparr> reservations := [(''r1'', exampleReservation)] \<rparr>" "''r1''"
      "exampleDate - 37800000" exampleSettings exampleTransitions "Some ''ill''"]
    cancelReservation_by_stored_date [of
      "emptyDatabase \<lparr> reservations := [(''r1'', exampleReservation)] \<rparr>" "''r1''"
      "exampleDate - 86400000" exampleSettings exampleTransitions "Some ''ill''"]
    cancelReservation_by_stored_date [of
      "emptyDatabase \<lparr> reservations := [(''r1'', exampleReservation \<lparr> status := completed \<rparr>)] \<rparr>"
      "''r1''" "exampleDate - 86400000" exampleSettings exampleTransitions "Some ''ill''"]
    cancelReservation_by_stored_date [of
      "emptyDatabase \<lparr> reservations := [(''r1'', exampleReservation \<lparr> status := cancelled \<rparr>)] \<rparr>"
      "''r1''" "exampleDate - 86400000" exampleSettings exampleTransitions "Some ''ill''"]
  by (simp add: eval_defs lifecycle_defs)

text \<open>
  The time label of the reservation does not enter \<^verbatim>\<open>cancelReservation\<close>: with
  another label the outcome is the same, but for the label of the returned document.
\<close>

lemma cancelReservation_ignores_time:
  "fst (cancelReservation cfg tbl now rid reasonGiven
          (db \<lparr> reservations := [(rid, r \<lparr> time := tm \<rparr>)] \<rparr>))
     = map_sum id (\<lambda>(i, doc). (i, doc \<lparr> time := tm \<rparr>))
         (fst (cancelReservation cfg tbl now rid reasonGiven
                 (db \<lparr> reservations := [(rid, r)] \<rparr>)))"
  by (simp add: cancelReservation_def updateReservationStatus_def getReservation_def Let_def)

lemmas spec_hours_defs =
  spec_hoursUntil_def spec_reservationDateTime_def spec_slotTimeMs_def spec_digit_def
  eveningReservation_def noonBefore_def

text \<open>
  Claim C4. The claim is that \<^verbatim>\<open>cancelReservation\<close> fails with the
  precondition-failed error exactly when the hours between now and the reservation's
  date and time are less than the cancellation window, and otherwise goes on to the
  status transition. For a confirmed reservation at 19:00 of a date stored with the
  time of day stripped, at noon of the day before and with a window of 24 hours, the
  seating is 31 hours away, not less than the window, and \<^verbatim>\<open>cancelReservation\<close>
  fails with the precondition-failed error that reports 12 hours: the variable
  \<^verbatim>\<open>reservationDateTime\<close> of the source is the \<^verbatim>\<open>date\<close> field alone.
\<close>

theorem cancelReservation_ignores_slot_time:
  "status eveningReservation = confirmed
   \<and> cancelReservation exampleSettings exampleTransitions noonBefore ''r1'' None
        (emptyDatabase \<lparr> reservations := [(''r1'', eveningReservation)] \<rparr>)
      = (Inl (PreconditionFailedError 24 12),
         emptyDatabase \<lparr> reservations := [(''r1'', eveningReservation)] \<rparr>)
   \<and> \<lfloor>spec_hoursUntil noonBefore eveningReservation\<rfloor> = 31
   \<and> \<not> spec_hoursUntil noonBefore eveningReservation
         < of_int (getCancellationWindow exampleSettings)"
  by (simp add: eval_defs lifecycle_defs spec_hours_defs)

section \<open>Creation\<close>

lemmas create_defs =
  createReservation_def isDateWithinBookingWindow_def reservationDataOf_def
  exampleNow_def exampleInput_def

lemma checkAndReserveSlot_Inr:
  assumes "checkAndReserveSlot cfg now newId d tm stype psize payload db = (Inr rid, db')"
  shows "rid = newId
       \<and> psize \<le> getCapacity cfg stype - sumPartySize (slotQuery db d tm stype)
       \<and> db' = db \<lparr> reservations := AList.update newId payload (reservations db),
                     slotLocks := AList.update (formatDateKey d, tm, stype)
                        \<lparr> lastReservationId = newId, lastReservationAt = now \<rparr> (slotLocks db) \<rparr>"
  using assms
  by (auto simp: checkAndReserveSlot_def reserveTransaction_def commitWrites_def Let_def
      split: if_splits)

text \<open>
  Claim C7, as stated, fails: \<^verbatim>\<open>createReservation\<close> accepts a party of 0 at the time
  25:99, which is no configured slot, and stores the record.
\<close>

theorem createReservation_invalid_counterexample:
  "fst (createReservation exampleSettings exampleNow ''r1''
          (exampleInput \<lparr> input_partySize := 0, input_time := ''25:99'' \<rparr>) emptyDatabase)
     = Inr (''r1'', reservationDataOf exampleNow
                      (exampleInput \<lparr> input_partySize := 0, input_time := ''25:99'' \<rparr>))
   \<and> partySize (reservationDataOf exampleNow
                      (exampleInput \<lparr> input_partySize := 0, input_time := ''25:99'' \<rparr>)) = JsNum 0
   \<and> time (reservationDataOf exampleNow
                      (exampleInput \<lparr> input_partySize := 0, input_time := ''25:99'' \<rparr>))
       \<notin> set (timeSlots exampleSettings)
   \<and> \<not> spec_validReservation exampleSettings
         (reservationDataOf exampleNow
            (exampleInput \<lparr> input_partySize := 0, input_time := ''25:99'' \<rparr>))"
  by (simp add: eval_defs create_defs spec_validReservation_def)

text \<open>
  Claim C7, amended. Every reservation record created through \<^verbatim>\<open>createReservation\<close>
  is stored under the generated id and carries the party size, date, time and seating
  type of the input, with status confirmed, a date inside the booking window and a party
  size no larger than the remaining capacity of its slot at the commit; it has a party
  size of at least 1 and a configured time slot exactly when the input has.
\<close>

theorem createReservation_stores_input:
  assumes "createReservation cfg now newId input db = (Inr (rid, r), db')"
  shows "rid = newId \<and> map_of (reservations db') rid = Some r
       \<and> r = reservationDataOf now input
       \<and> partySize r = JsNum (input_partySize input)
       \<and> date r = input_date input \<and> time r = input_time input
       \<and> seatingType r = input_seatingType input \<and> status r = confirmed
       \<and> isDateWithinBookingWindow cfg now (date r)
       \<and> input_partySize input
            \<le> getCapacity cfg (seatingType r)
               - bookedCount (calculateSlotAvailability cfg db (date r) (time r) (seatingType r))
       \<and> spec_validReservation cfg r
            = (1 \<le> input_partySize input \<and> input_time input \<in> set (timeSlots cfg))"
proof -
  from assms have w: "isDateWithinBookingWindow cfg now (input_date input)"
    by (auto simp: createReservation_def Let_def split: if_splits)
  obtain res dbc where c: "checkAndReserveSlot cfg now newId (input_date input) (input_time input)
      (input_seatingType input) (input_partySize input) (reservationDataOf now input) db = (res, dbc)"
    by (cases "checkAndReserveSlot cfg now newId (input_date input) (input_time input)
      (input_seatingType input) (input_partySize input) (reservationDataOf now input) db") auto
  from assms w c obtain rid' where r: "res = Inr rid'"
    by (cases res) (auto simp: createReservation_def Let_def)
  from checkAndReserveSlot_Inr [OF c [unfolded r]]
  have i: "rid' = newId"
    and p: "input_partySize input \<le> getCapacity cfg (input_seatingType input)
              - sumPartySize (slotQuery db (input_date input) (input_time input) (input_seatingType input))"
    and d: "dbc = db \<lparr> reservations := AList.update newId (reservationDataOf now input) (reservations db),
                     slotLocks := AList.update (formatDateKey (input_date input), input_time input, input_seatingType input)
                        \<lparr> lastReservationId = newId, lastReservationAt = now \<rparr> (slotLocks db) \<rparr>"
    by auto
  have m: "map_of (reservations dbc) newId = Some (reservationDataOf now input)"
    by (simp add: d map_of_update_same)
  from assms w c r i m have e: "rid = newId" "r = reservationDataOf now input" "db' = dbc"
    by (auto simp: createReservation_def Let_def)
  show ?thesis
    using e m w p
    by (simp add: reservationDataOf_def spec_validReservation_def bookedCount_calc)
qed

theorem createReservation_stores_input_witness:
  "createReservation exampleSettings exampleNow ''r1'' exampleInput emptyDatabase
     = (Inr (''r1'', reservationDataOf exampleNow exampleInput),
        \<lparr> reservations = [(''r1'', reservationDataOf exampleNow exampleInput)],
          slotLocks = [((20000, ''19:00'', balcony),
                        \<lparr> lastReservationId = ''r1'', lastReservationAt = exampleNow \<rparr>)],
          blockedDates = [] \<rparr>)
   \<and> spec_validReservation exampleSettings (reservationDataOf exampleNow exampleInput)"
proof -
  have h: "createReservation exampleSettings exampleNow ''r1'' exampleInput emptyDatabase
     = (Inr (''r1'', reservationDataOf exampleNow exampleInput),
        \<lparr> reservations = [(''r1'', reservationDataOf exampleNow exampleInput)],
          slotLocks = [((20000, ''19:00'', balcony),
                        \<lparr> lastReservationId = ''r1'', lastReservationAt = exampleNow \<rparr>)],
          blockedDates = [] \<rparr>)"
    by (simp add: eval_defs create_defs)
  from createReservation_stores_input [OF h] h show ?thesis
    by (simp add: exampleInput_def exampleSettings_def)
qed

section \<open>Concurrent calls never overbook\<close>

lemma slotQuery_day:
  "formatDateKey d = formatDateKey d' \<Longrightarrow> slotQuery db d tm stype = slotQuery db d' tm stype"
  by (simp add: slotQuery_def same_day_range_conj)

lemma runUpdateFunction_Inr:
  assumes "runUpdateFunction cfg rid req db = Inr w"
  shows "w = writesOf rid req
       \<and> occupied db (input_date (requestInput req)) (input_time (requestInput req))
             (input_seatingType (requestInput req))
           + input_partySize (requestInput req)
         \<le> getCapacity cfg (input_seatingType (requestInput req))"
  using assms
  by (auto simp: runUpdateFunction_def reserveTransaction_def writesOf_def requestKey_def
      occupied_def Let_def split: if_splits)

lemma occupied_commit:
  assumes "rid \<notin> fst ` set (reservations db)"
  shows "occupied (commitWrites (writesOf rid req) db) d tm stype
         = occupied db d tm stype
           + (if requestKey req = (formatDateKey d, tm, stype)
              then input_partySize (requestInput req) else 0)"
  using assms
  by (auto simp: occupied_def commitWrites_def writesOf_def slotQuery_def update_fresh
      sumPartySize_append sumPartySize_Cons sumPartySize_Nil reservationDataOf_def
      requestKey_def same_day_range_conj orZero_def)

lemma ids_commit:
  "fst ` set (reservations (commitWrites (writesOf rid req) db))
     = insert rid (fst ` set (reservations db))"
  by (simp add: commitWrites_def writesOf_def dom_update [simplified dom_map_of_conv_image_fst])


lemma versionOf_update:
  "versionOf (AList.update k n vs) k' = (if k' = k then n else versionOf vs k')"
  by (simp add: versionOf_def update_conv')

lemma attemptInv_start:
  assumes "rid \<notin> fst ` set (reservations (store s))"
  shows "attemptInv cfg d tm stype (store s) (lockVersions s) rid (startAttempt cfg rid req s)"
proof -
  have "occupied (store s) d tm stype + input_partySize (requestInput req) \<le> getCapacity cfg stype"
    if w: "runUpdateFunction cfg rid req (store s) = Inr w"
      and k: "requestKey req = (formatDateKey d, tm, stype)" for w
  proof -
    from k have e: "formatDateKey (input_date (requestInput req)) = formatDateKey d"
      "input_time (requestInput req) = tm" "input_seatingType (requestInput req) = stype"
      by (simp_all add: requestKey_def)
    from runUpdateFunction_Inr [OF w] e
    have "occupied (store s) (input_date (requestInput req)) tm stype
            + input_partySize (requestInput req) \<le> getCapacity cfg stype"
      by simp
    then show ?thesis
      using slotQuery_day [OF e(1)] by (simp add: occupied_def)
  qed
  then show ?thesis
    using assms runUpdateFunction_Inr [of cfg rid req "store s"]
    by (auto simp: attemptInv_def startAttempt_def)
qed

lemma attemptInv_commit_other:
  assumes inv: "attemptInv cfg d tm stype db vs rid' a'"
    and ne: "rid' \<noteq> rid"
    and fresh: "rid \<notin> fst ` set (reservations db)"
  shows "attemptInv cfg d tm stype (commitWrites (writesOf rid req) db)
           (AList.update (requestKey req) (Suc (versionOf vs (requestKey req))) vs) rid' a'"
  using inv ne
  by (auto simp: attemptInv_def ids_commit versionOf_update occupied_commit [OF fresh])

lemma map_of_running_update:
  "map_of (AList.update rid a rs) rid' = Some a'
     \<Longrightarrow> (rid' = rid \<and> a' = a) \<or> (rid' \<noteq> rid \<and> map_of rs rid' = Some a')"
  by (auto simp: update_conv' split: if_splits)

lemma map_of_running_delete:
  "map_of (AList.delete rid rs) rid' = Some a' \<Longrightarrow> rid' \<noteq> rid \<and> map_of rs rid' = Some a'"
  by (auto simp: delete_conv' split: if_splits)

lemma sysInv_start:
  assumes inv: "sysInv cfg d tm stype s"
    and fresh: "rid \<notin> fst ` set (reservations (store s))"
  shows "sysInv cfg d tm stype
           (s \<lparr> running := AList.update rid (startAttempt cfg rid req s) (running s) \<rparr>)"
  unfolding sysInv_def
proof (intro conjI allI impI)
  show "occupied (store (s \<lparr> running := AList.update rid (startAttempt cfg rid req s) (running s) \<rparr>)) d tm stype
          \<le> getCapacity cfg stype"
    using inv by (simp add: sysInv_def)
next
  fix rid' a'
  assume "map_of (running (s \<lparr> running := AList.update rid (startAttempt cfg rid req s) (running s) \<rparr>)) rid'
            = Some a'"
  then have "map_of (AList.update rid (startAttempt cfg rid req s) (running s)) rid' = Some a'"
    by simp
  from map_of_running_update [OF this]
  show "attemptInv cfg d tm stype
          (store (s \<lparr> running := AList.update rid (startAttempt cfg rid req s) (running s) \<rparr>))
          (lockVersions (s \<lparr> running := AList.update rid (startAttempt cfg rid req s) (running s) \<rparr>))
          rid' a'"
    using attemptInv_start [OF fresh, of cfg d tm stype req] inv
    by (auto simp: sysInv_def)
qed

lemma sysInv_finish:
  assumes inv: "sysInv cfg d tm stype s"
  shows "sysInv cfg d tm stype
           (s \<lparr> running := AList.delete rid (running s), returned := returned s @ [x] \<rparr>)"
  using inv
  by (auto simp: sysInv_def dest!: map_of_running_delete)

lemma sysInv_returned:
  assumes inv: "sysInv cfg d tm stype s"
  shows "sysInv cfg d tm stype (s \<lparr> returned := returned s @ [x] \<rparr>)"
  using inv by (auto simp: sysInv_def)

lemma sysInv_commit:
  assumes inv: "sysInv cfg d tm stype s"
    and a: "map_of (running s) rid = Some a"
    and w: "staged a = Inr w"
    and v: "versionOf (lockVersions s) (slotLockRef w) = readVersion a"
  shows "sysInv cfg d tm stype
           (s \<lparr> store := commitWrites w (store s),
                lockVersions := AList.update (slotLockRef w)
                                  (Suc (versionOf (lockVersions s) (slotLockRef w)))
                                  (lockVersions s),
                running := AList.delete rid (running s),
                returned := returned s @ [x] \<rparr>)"
proof -
  from inv a have ai: "attemptInv cfg d tm stype (store s) (lockVersions s) rid a"
    by (simp add: sysInv_def)
  with w have weq: "w = writesOf rid (attemptRequest a)"
    and fresh: "rid \<notin> fst ` set (reservations (store s))"
    by (simp_all add: attemptInv_def)
  have key: "slotLockRef w = requestKey (attemptRequest a)"
    by (simp add: weq writesOf_def)
  have occ: "occupied (commitWrites w (store s)) d tm stype \<le> getCapacity cfg stype"
  proof (cases "requestKey (attemptRequest a) = (formatDateKey d, tm, stype)")
    case True
    with ai w v key
    have "occupied (store s) d tm stype + input_partySize (requestInput (attemptRequest a))
            \<le> getCapacity cfg stype"
      by (simp add: attemptInv_def)
    with True show ?thesis
      by (simp add: weq occupied_commit [OF fresh])
  next
    case False
    with inv show ?thesis
      by (simp add: weq occupied_commit [OF fresh] sysInv_def)
  qed
  have others: "attemptInv cfg d tm stype (commitWrites w (store s))
           (AList.update (slotLockRef w) (Suc (versionOf (lockVersions s) (slotLockRef w)))
              (lockVersions s)) rid' a'"
    if "map_of (AList.delete rid (running s)) rid' = Some a'" for rid' a'
  proof -
    from map_of_running_delete [OF that]
    have ne: "rid' \<noteq> rid" and m: "map_of (running s) rid' = Some a'" by simp_all
    from inv m have "attemptInv cfg d tm stype (store s) (lockVersions s) rid' a'"
      by (simp add: sysInv_def)
    from attemptInv_commit_other [OF this ne fresh, of "attemptRequest a"]
    show ?thesis by (simp add: weq key [unfolded weq] writesOf_def)
  qed
  show ?thesis
    unfolding sysInv_def using occ others by simp
qed

lemma step_sysInv:
  assumes inv: "sysInv cfg d tm stype s" and st: "step cfg s e = Some s'"
  shows "sysInv cfg d tm stype s'"
proof (cases e)
  case (Call rid req)
  with st inv show ?thesis
    by (auto simp: sysInv_start sysInv_returned split: if_splits)
next
  case (Rerun rid)
  with st obtain a where a: "map_of (running s) rid = Some a"
    and s': "s' = s \<lparr> running := AList.update rid (startAttempt cfg rid (attemptRequest a) s) (running s) \<rparr>"
    by (auto split: option.splits)
  from inv a have "rid \<notin> fst ` set (reservations (store s))"
    by (simp add: sysInv_def attemptInv_def)
  from sysInv_start [OF inv this] s' show ?thesis by simp
next
  case (Commit rid)
  with st obtain a where a: "map_of (running s) rid = Some a"
    by (auto split: option.splits)
  from inv a have fresh: "rid \<notin> fst ` set (reservations (store s))"
    by (simp add: sysInv_def attemptInv_def)
  show ?thesis
  proof (cases "staged a")
    case (Inl err)
    with st Commit a have "s' = s \<lparr> running := AList.delete rid (running s),
                                   returned := returned s @ [(rid, Inl err)] \<rparr>"
      by simp
    with sysInv_finish [OF inv] show ?thesis by simp
  next
    case (Inr w)
    show ?thesis
    proof (cases "versionOf (lockVersions s) (slotLockRef w) = readVersion a")
      case True
      with st Commit a Inr
      have "s' = s \<lparr> store := commitWrites w (store s),
                lockVersions := AList.update (slotLockRef w)
                                  (Suc (versionOf (lockVersions s) (slotLockRef w)))
                                  (lockVersions s),
                running := AList.delete rid (running s),
                returned := returned s @ [(rid, readBack (commitWrites w (store s)) rid)] \<rparr>"
        by (simp add: Let_def)
      with sysInv_commit [OF inv a Inr True] show ?thesis by simp
    next
      case False
      with st Commit a Inr
      have "s' = s \<lparr> running := AList.update rid (startAttempt cfg rid (attemptRequest a) s) (running s) \<rparr>"
        by simp
      with sysInv_start [OF inv fresh] show ?thesis by simp
    qed
  qed
next
  case (GiveUp rid)
  with st obtain a where "map_of (running s) rid = Some a"
    and "s' = s \<lparr> running := AList.delete rid (running s),
                   returned := returned s @ [(rid, Inl Aborted)] \<rparr>"
    by (auto split: option.splits)
  with sysInv_finish [OF inv] show ?thesis by simp
qed

lemma run_sysInv:
  "sysInv cfg d tm stype s \<Longrightarrow> run cfg s evs = Some s' \<Longrightarrow> sysInv cfg d tm stype s'"
proof (induction evs arbitrary: s)
  case Nil
  then show ?case by simp
next
  case (Cons e evs)
  from Cons.prems(2) obtain s1 where s1: "step cfg s e = Some s1" and r: "run cfg s1 evs = Some s'"
    by (auto split: option.splits)
  from Cons.IH [OF step_sysInv [OF Cons.prems(1) s1] r] show ?case .
qed


lemma readBack_commit:
  "readBack (commitWrites (writesOf rid req) db) rid
     = Inr (rid, reservationDataOf (requestNow req) (requestInput req))"
  by (simp add: readBack_def commitWrites_def writesOf_def map_of_update_same)

lemma occupied_snoc:
  "occupied \<lparr> reservations = docs @ [(rid, reservationDataOf now input)],
              slotLocks = [], blockedDates = [] \<rparr> d tm stype
     = occupied \<lparr> reservations = docs, slotLocks = [], blockedDates = [] \<rparr> d tm stype
       + (if (formatDateKey (input_date input), input_time input, input_seatingType input)
             = (formatDateKey d, tm, stype)
          then input_partySize input else 0)"
  by (auto simp: occupied_def slotQuery_def sumPartySize_append sumPartySize_Cons
      sumPartySize_Nil reservationDataOf_def same_day_range_conj orZero_def)

lemma balance_unchanged:
  "store s' = store s \<Longrightarrow> created s' = created s \<Longrightarrow> balance s' d tm stype = balance s d tm stype"
  by (simp add: balance_def createdOccupied_def)

lemma step_balance:
  assumes inv: "sysInv cfg d tm stype s" and st: "step cfg s e = Some s'"
  shows "balance s' d tm stype = balance s d tm stype"
proof (cases e)
  case (Call rid req)
  with st show ?thesis
    by (auto simp: created_def intro!: balance_unchanged split: if_splits)
next
  case (Rerun rid)
  with st show ?thesis
    by (auto simp: created_def intro!: balance_unchanged split: option.splits)
next
  case (GiveUp rid)
  with st show ?thesis
    by (auto simp: created_def intro!: balance_unchanged split: option.splits)
next
  case (Commit rid)
  with st obtain a where a: "map_of (running s) rid = Some a"
    by (auto split: option.splits)
  from inv a have ai: "attemptInv cfg d tm stype (store s) (lockVersions s) rid a"
    by (simp add: sysInv_def)
  show ?thesis
  proof (cases "staged a")
    case (Inl err)
    with st Commit a show ?thesis
      by (auto simp: created_def intro!: balance_unchanged)
  next
    case (Inr w)
    with ai have weq: "w = writesOf rid (attemptRequest a)"
      and fresh: "rid \<notin> fst ` set (reservations (store s))"
      by (simp_all add: attemptInv_def)
    show ?thesis
    proof (cases "versionOf (lockVersions s) (slotLockRef w) = readVersion a")
      case True
      with st Commit a Inr
      have s': "store s' = commitWrites (writesOf rid (attemptRequest a)) (store s)"
        "created s' = created s @ [(rid, reservationDataOf (requestNow (attemptRequest a))
                                            (requestInput (attemptRequest a)))]"
        by (auto simp: Let_def weq readBack_commit created_def)
      show ?thesis
        by (simp add: balance_def createdOccupied_def s' occupied_commit [OF fresh]
            occupied_snoc requestKey_def)
    next
      case False
      with st Commit a Inr show ?thesis
        by (auto simp: created_def intro!: balance_unchanged)
    qed
  qed
qed

lemma run_balance:
  "sysInv cfg d tm stype s \<Longrightarrow> run cfg s evs = Some s'
     \<Longrightarrow> balance s' d tm stype = balance s d tm stype"
proof (induction evs arbitrary: s)
  case Nil
  then show ?case by simp
next
  case (Cons e evs)
  from Cons.prems(2) obtain s1 where s1: "step cfg s e = Some s1" and r: "run cfg s1 evs = Some s'"
    by (auto split: option.splits)
  from Cons.IH [OF step_sysInv [OF Cons.prems(1) s1] r] step_balance [OF Cons.prems(1) s1]
  show ?case by simp
qed

lemma sysInv_initial:
  "occupied db d tm stype \<le> getCapacity cfg stype \<Longrightarrow> sysInv cfg d tm stype (initialSystem db)"
  by (simp add: sysInv_def initialSystem_def)

lemma balance_initial: "balance (initialSystem db) d tm stype = occupied db d tm stype"
  by (simp add: balance_def createdOccupied_def initialSystem_def created_def occupied_def
      slotQuery_def sumPartySize_Nil)

text \<open>
  Claim C1. For every interleaving of concurrent \<^verbatim>\<open>createReservation\<close> calls with
  their \<^verbatim>\<open>checkAndReserveSlot\<close> transactions, started from a database in which the
  slot of a date, time and seating type is not overbooked, the sum of the party sizes of
  the occupying reservations of that slot is at most the total capacity after every
  event, so at every commit; and the reservations that the calls created hold at that
  slot no more seats than remained at the start, so that two calls racing for the last
  seats cannot both succeed.
\<close>

theorem concurrent_creations_within_capacity:
  assumes "run cfg (initialSystem db) evs = Some s"
    and "bookedCount (calculateSlotAvailability cfg db d tm stype) \<le> getCapacity cfg stype"
  shows "bookedCount (calculateSlotAvailability cfg (store s) d tm stype) \<le> getCapacity cfg stype
       \<and> bookedCount (calculateSlotAvailability cfg (store s) d tm stype)
           = bookedCount (calculateSlotAvailability cfg db d tm stype) + createdOccupied s d tm stype
       \<and> createdOccupied s d tm stype
           \<le> getCapacity cfg stype - bookedCount (calculateSlotAvailability cfg db d tm stype)"
proof -
  from assms(2) have i: "sysInv cfg d tm stype (initialSystem db)"
    by (simp add: sysInv_initial occupied_def bookedCount_calc)
  from run_sysInv [OF i assms(1)]
  have a: "occupied (store s) d tm stype \<le> getCapacity cfg stype"
    by (simp add: sysInv_def)
  from run_balance [OF i assms(1)]
  have "balance s d tm stype = occupied db d tm stype"
    by (simp only: balance_initial)
  then have b: "occupied (store s) d tm stype = occupied db d tm stype + createdOccupied s d tm stype"
    by (simp add: balance_def)
  from a b show ?thesis
    by (simp add: bookedCount_calc occupied_def)
qed

lemmas concurrent_defs =
  runUpdateFunction_def startAttempt_def versionOf_def requestKey_def readBack_def
  initialSystem_def created_def createdOccupied_def occupied_def
  exampleRequest_def raceEvents_def raceOutcome_def

theorem concurrent_creations_within_capacity_witness:
  "run exampleSettings (initialSystem emptyDatabase) raceEvents = Some raceOutcome
   \<and> bookedCount (calculateSlotAvailability exampleSettings emptyDatabase
                    exampleDate ''19:00'' balcony) \<le> getCapacity exampleSettings balcony
   \<and> bookedCount (calculateSlotAvailability exampleSettings (store raceOutcome)
                    exampleDate ''19:00'' balcony) = 6
   \<and> createdOccupied raceOutcome exampleDate ''19:00'' balcony = 6"
proof -
  have h1: "run exampleSettings (initialSystem emptyDatabase) raceEvents = Some raceOutcome"
    by (simp add: concurrent_defs eval_defs create_defs)
  have h2: "bookedCount (calculateSlotAvailability exampleSettings emptyDatabase
                    exampleDate ''19:00'' balcony) \<le> getCapacity exampleSettings balcony"
    by (simp add: eval_defs)
  from concurrent_creations_within_capacity [OF h1 h2] h1 h2 show ?thesis
    by (simp add: concurrent_defs eval_defs create_defs)
qed

text \<open>
  A call that no other event interrupts does what \<^verbatim>\<open>createReservation\<close> does as one
  atomic unit.
\<close>

lemma serial_call_outside_window:
  assumes "rid \<notin> fst ` set (reservations (store s))" "rid \<notin> fst ` set (running s)"
    and "\<not> isDateWithinBookingWindow cfg (requestNow req) (input_date (requestInput req))"
  shows "step cfg s (Call rid req)
         = Some (s \<lparr> returned := returned s
             @ [(rid, fst (createReservation cfg (requestNow req) rid (requestInput req) (store s)))] \<rparr>)
       \<and> snd (createReservation cfg (requestNow req) rid (requestInput req) (store s)) = store s"
  using assms by (simp add: createReservation_def)

lemma serial_call_createReservation:
  assumes "rid \<notin> fst ` set (reservations (store s))" "rid \<notin> fst ` set (running s)"
    and "isDateWithinBookingWindow cfg (requestNow req) (input_date (requestInput req))"
  shows "\<exists>s'. run cfg s [Call rid req, Commit rid] = Some s'
           \<and> store s' = snd (createReservation cfg (requestNow req) rid (requestInput req) (store s))
           \<and> returned s' = returned s
               @ [(rid, fst (createReservation cfg (requestNow req) rid (requestInput req) (store s)))]
           \<and> running s' = running s"
proof (cases "runUpdateFunction cfg rid req (store s)")
  case (Inl err)
  with assms show ?thesis
    by (simp add: createReservation_def checkAndReserveSlot_def runUpdateFunction_def
        startAttempt_def map_of_update_same delete_update_same)
next
  case (Inr w)
  from runUpdateFunction_Inr [OF Inr] have w: "w = writesOf rid req" by simp
  from Inr assms show ?thesis
    by (simp add: createReservation_def checkAndReserveSlot_def runUpdateFunction_def
        startAttempt_def map_of_update_same delete_update_same Let_def
        w writesOf_def requestKey_def readBack_def commitWrites_def)
qed

end
